theory Spec2Isabelle
  imports Complex_Main "HOL-Library.Sublist" "HOL-Library.Multiset"
begin

section \<open>Crop recommendation: the top-3 selection and its command-line wrapper\<close>

text \<open>
  The development embeds \<^verbatim>\<open>predict.py\<close> (function \<^verbatim>\<open>predict_top3\<close>) and
  \<^verbatim>\<open>predict_wrapper.py\<close> (the module-level model load, function \<^verbatim>\<open>predict\<close> and
  the script entry point). The trained classifier is an unpickled object whose behaviour
  is not part of the repository; it is a parameter of every definition below.

  Conventions of the embedding:
  \<^item> an exception is a value of type \<open>error\<close>; a computation that may raise has a result of
    type \<open>error + 'a\<close>, with \<open>Inl\<close> the exception;
  \<^item> probabilities and percentages are exact rationals, and \<^verbatim>\<open>round(x, 2)\<close> rounds the
    exact value half-to-even; the binary rounding of IEEE doubles is not modelled;
  \<^item> a string is a list of 8-bit characters; the treatment of white space and digits
    by \<^verbatim>\<open>float\<close> is modelled for ASCII;
  \<^item> \<^verbatim>\<open>json.dumps\<close> is modelled by the JSON document it serialises, \<^verbatim>\<open>print\<close> by the
    list of documents written to standard output.
\<close>

subsection \<open>Exceptions\<close>

datatype error =
    ValueError string
  | IndexError string
  | Exception string

text \<open>\<^verbatim>\<open>str(e)\<close>: the message the exception was raised with.\<close>

fun str_error :: "error \<Rightarrow> string" where
  "str_error (ValueError msg) = msg"
| "str_error (IndexError msg) = msg"
| "str_error (Exception msg) = msg"

subsection \<open>Python built-ins used by the two modules\<close>

text \<open>Decimal rendering of a natural number, as an f-string renders an \<^verbatim>\<open>int\<close>.\<close>

definition digit_char :: "nat \<Rightarrow> char" where
  "digit_char d = ''0123456789'' ! d"

function str_nat :: "nat \<Rightarrow> string" where
  "str_nat n = (if n < 10 then [digit_char n] else str_nat (n div 10) @ [digit_char (n mod 10)])"
  by pat_completeness auto
termination
  by (relation "measure id") auto

declare str_nat.simps [simp del]

text \<open>
  \<^verbatim>\<open>sorted(xs, key=k, reverse=True)\<close>. CPython sorts stably in ascending key order and
  implements \<^verbatim>\<open>reverse=True\<close> by reversing the list before and after that sort, so that
  elements with equal keys keep their original relative order.
\<close>

definition py_sorted_reverse :: "('a \<Rightarrow> 'k::linorder) \<Rightarrow> 'a list \<Rightarrow> 'a list" where
  "py_sorted_reverse key xs = rev (sort_key key (rev xs))"

text \<open>Rounding to the nearest integer, ties to the even neighbour.\<close>

definition round_half_even :: "rat \<Rightarrow> int" where
  "round_half_even x =
     (let f = \<lfloor>x\<rfloor>; d = x - of_int f
      in if d < 1 / 2 then f
         else if 1 / 2 < d then f + 1
         else if even f then f else f + 1)"

text \<open>\<^verbatim>\<open>round(x, ndigits)\<close> for \<^verbatim>\<open>ndigits >= 0\<close>.\<close>

definition py_round :: "rat \<Rightarrow> nat \<Rightarrow> rat" where
  "py_round x ndigits = of_int (round_half_even (x * 10 ^ ndigits)) / 10 ^ ndigits"

text \<open>Indexing with \<^verbatim>\<open>[0]\<close>: an empty sequence raises \<^verbatim>\<open>IndexError\<close>.\<close>

definition index0 :: "'a list \<Rightarrow> error + 'a" where
  "index0 xs =
     (case xs of
        [] \<Rightarrow> Inl (IndexError ''index 0 is out of bounds for axis 0 with size 0'')
      | x # _ \<Rightarrow> Inr x)"

subsection \<open>The data frame and the classifier\<close>

record 'x frame =
  columns :: "string list"
  frame_rows :: "'x list list"

text \<open>
  \<^verbatim>\<open>pd.DataFrame([row], columns=cols)\<close>: a frame of one row. pandas raises
  \<^verbatim>\<open>ValueError\<close> when the row does not have one value for each column name.
\<close>

definition DataFrame :: "'x list \<Rightarrow> string list \<Rightarrow> error + 'x frame" where
  "DataFrame row cols =
     (if length cols \<noteq> length row
      then Inl (ValueError (str_nat (length cols) @ '' columns passed, passed data had ''
                            @ str_nat (length row) @ '' columns''))
      else Inr \<lparr>columns = cols, frame_rows = [row]\<rparr>)"

text \<open>
  The loaded model: its attribute \<^verbatim>\<open>classes_\<close> (field \<open>classes\<close>) and its method \<^verbatim>\<open>predict_proba\<close>, which
  returns one row of probabilities for each row of the frame, or raises. Whatever else
  the object holds is the extension part of the record.
\<close>

record 'x classifier =
  classes :: "string list"
  predict_proba :: "'x frame \<Rightarrow> error + rat list list"

definition FEATURES :: "string list" where
  "FEATURES = [''N'', ''P'', ''K'', ''temperature'', ''humidity'', ''ph'', ''rainfall'']"

subsection \<open>\<^verbatim>\<open>predict.py\<close>\<close>

definition predict_top3 ::
  "('x, 'z) classifier_scheme \<Rightarrow> 'x list \<Rightarrow> error + (string \<times> rat) list" where
  "predict_top3 model user_input =
     (case DataFrame user_input FEATURES of
        Inl e \<Rightarrow> Inl e
      | Inr df \<Rightarrow>
         (case predict_proba model df of
            Inl e \<Rightarrow> Inl e
          | Inr out \<Rightarrow>
             (case index0 out of
                Inl e \<Rightarrow> Inl e
              | Inr probs \<Rightarrow>
                 (let results = zip (classes model) probs;
                      results = py_sorted_reverse snd results;
                      top3 = take 3 results
                  in Inr (map (\<lambda>(crop, prob). (crop, py_round (prob * 100) 2)) top3)))))"

subsection \<open>\<^verbatim>\<open>float(x)\<close> on a string\<close>

text \<open>
  The value of a successful conversion. \<open>Dec s\<close> is the double that the decimal numeral
  \<open>s\<close> is rounded to by \<^verbatim>\<open>float\<close>; that rounding is not modelled, the numeral is kept.
\<close>

datatype pyfloat = Dec string | PosInf | NegInf | NaN

definition hex_char :: "nat \<Rightarrow> char" where
  "hex_char d = ''0123456789abcdef'' ! d"

text \<open>
  \<^verbatim>\<open>repr\<close> of a string: quoted with \<^verbatim>\<open>'\<close>, or with \<^verbatim>\<open>"\<close> when the string holds a
  \<^verbatim>\<open>'\<close> and no \<^verbatim>\<open>"\<close>; the quote and the backslash are escaped, control characters are
  written as escapes. Characters above \<open>0x7F\<close> are copied.
\<close>

definition repr_char :: "char \<Rightarrow> char \<Rightarrow> string" where
  "repr_char quote c =
     (if c = quote \<or> c = CHR 0x5C then [CHR 0x5C, c]
      else if c = CHR 0x09 then [CHR 0x5C, CHR ''t'']
      else if c = CHR 0x0A then [CHR 0x5C, CHR ''n'']
      else if c = CHR 0x0D then [CHR 0x5C, CHR ''r'']
      else if (of_char c :: nat) < 32 \<or> c = CHR 0x7F
        then [CHR 0x5C, CHR ''x'', hex_char (of_char c div 16), hex_char (of_char c mod 16)]
      else [c])"

definition py_repr :: "string \<Rightarrow> string" where
  "py_repr s =
     (let quote = (if CHR 0x27 \<in> set s \<and> CHR 0x22 \<notin> set s then CHR 0x22 else CHR 0x27)
      in [quote] @ concat (map (repr_char quote) s) @ [quote])"

text \<open>White space as \<^verbatim>\<open>float\<close> strips it from both ends of an ASCII string.\<close>

definition is_space :: "char \<Rightarrow> bool" where
  "is_space c = (c \<in> set [CHR 0x20, CHR 0x09, CHR 0x0A, CHR 0x0B, CHR 0x0C, CHR 0x0D])"

definition py_strip :: "string \<Rightarrow> string" where
  "py_strip s = rev (dropWhile is_space (rev (dropWhile is_space s)))"

definition is_digit :: "char \<Rightarrow> bool" where
  "is_digit c = (c \<in> set ''0123456789'')"

definition ascii_lower :: "char \<Rightarrow> char" where
  "ascii_lower c =
     (case map_of (zip ''ABCDEFGHIJKLMNOPQRSTUVWXYZ'' ''abcdefghijklmnopqrstuvwxyz'') c of
        None \<Rightarrow> c
      | Some l \<Rightarrow> l)"

text \<open>
  The grammar of a decimal numeral:
  \<^verbatim>\<open>digitpart ::= digit (["_"] digit)*\<close>,
  \<^verbatim>\<open>number ::= [digitpart] "." digitpart | digitpart ["."]\<close>,
  \<^verbatim>\<open>exponent ::= ("e" | "E") ["+" | "-"] digitpart\<close>,
  \<^verbatim>\<open>floatnumber ::= number [exponent]\<close>.
\<close>

fun digitpart :: "string \<Rightarrow> bool" where
  "digitpart [] = False"
| "digitpart [c] = is_digit c"
| "digitpart (c # d # cs) =
     (is_digit c \<and> (if d = CHR ''_'' then digitpart cs else digitpart (d # cs)))"

definition unsigned :: "string \<Rightarrow> string" where
  "unsigned s =
     (case s of
        [] \<Rightarrow> []
      | c # cs \<Rightarrow> if c = CHR ''+'' \<or> c = CHR ''-'' then cs else s)"

definition number :: "string \<Rightarrow> bool" where
  "number s =
     (let ip = takeWhile (\<lambda>c. c \<noteq> CHR ''.'') s;
          rest = dropWhile (\<lambda>c. c \<noteq> CHR ''.'') s
      in case rest of
           [] \<Rightarrow> digitpart ip
         | _ # fp \<Rightarrow> (ip = [] \<and> digitpart fp) \<or> (digitpart ip \<and> (fp = [] \<or> digitpart fp)))"

definition floatnumber :: "string \<Rightarrow> bool" where
  "floatnumber s =
     (let is_e = (\<lambda>c. c = CHR ''e'' \<or> c = CHR ''E'');
          mant = takeWhile (\<lambda>c. \<not> is_e c) s;
          rest = dropWhile (\<lambda>c. \<not> is_e c) s
      in case rest of
           [] \<Rightarrow> number mant
         | _ # ex \<Rightarrow> number mant \<and> digitpart (unsigned ex))"

text \<open>
  \<^verbatim>\<open>float(x)\<close>: white space is stripped, then an optional sign is followed by
  \<^verbatim>\<open>inf\<close>, \<^verbatim>\<open>infinity\<close> or \<^verbatim>\<open>nan\<close> in any letter case, or by a decimal numeral. Anything
  else raises \<^verbatim>\<open>ValueError\<close>.
\<close>

definition py_float :: "string \<Rightarrow> error + pyfloat" where
  "py_float x =
     (let s = py_strip x;
          body = map ascii_lower (unsigned s)
      in if body = ''inf'' \<or> body = ''infinity''
           then Inr (if take 1 s = ''-'' then NegInf else PosInf)
         else if body = ''nan'' then Inr NaN
         else if floatnumber (unsigned s) then Inr (Dec s)
         else Inl (ValueError (''could not convert string to float: '' @ py_repr x)))"

text \<open>\<^verbatim>\<open>[float(x) for x in args]\<close>: left to right, the first failure is raised.\<close>

fun floats :: "string list \<Rightarrow> error + pyfloat list" where
  "floats [] = Inr []"
| "floats (x # xs) =
     (case py_float x of
        Inl e \<Rightarrow> Inl e
      | Inr v \<Rightarrow> (case floats xs of Inl e \<Rightarrow> Inl e | Inr vs \<Rightarrow> Inr (v # vs)))"

subsection \<open>\<^verbatim>\<open>predict_wrapper.py\<close>\<close>

datatype json =
    JBool bool
  | JNum rat
  | JStr string
  | JArr "json list"
  | JObj "(string \<times> json) list"

text \<open>
  The body of the \<^verbatim>\<open>try\<close> block of \<^verbatim>\<open>predict\<close>: the document it prints, or the
  exception that reaches the handler.
\<close>

definition predict_body :: "(pyfloat, 'z) classifier_scheme \<Rightarrow> string list \<Rightarrow> error + json" where
  "predict_body model args =
     (if length args \<noteq> 7
      then Inl (ValueError ''Expected 7 features: N, P, K, temperature, humidity, ph, rainfall'')
      else
        (case floats args of
           Inl e \<Rightarrow> Inl e
         | Inr inputs \<Rightarrow>
            (case DataFrame inputs FEATURES of
               Inl e \<Rightarrow> Inl e
             | Inr df \<Rightarrow>
                (case predict_proba model df of
                   Inl e \<Rightarrow> Inl e
                 | Inr out \<Rightarrow>
                    (case index0 out of
                       Inl e \<Rightarrow> Inl e
                     | Inr probs \<Rightarrow>
                        (let results = zip (classes model) probs;
                             results = py_sorted_reverse snd results;
                             top3 = map (\<lambda>(crop, prob).
                                      JObj [(''crop'', JStr crop),
                                            (''probability'', JNum (py_round (prob * 100) 2))])
                                    (take 3 results)
                         in Inr (JObj [(''success'', JBool True),
                                       (''recommendations'', JArr top3)])))))))"

text \<open>\<^verbatim>\<open>predict(args)\<close>: what it writes to standard output. It raises nothing.\<close>

definition predict :: "(pyfloat, 'z) classifier_scheme \<Rightarrow> string list \<Rightarrow> json list" where
  "predict model args =
     (case predict_body model args of
        Inr doc \<Rightarrow> [doc]
      | Inl e \<Rightarrow> [JObj [(''success'', JBool False), (''error'', JStr (str_error e))]])"

text \<open>
  A run of the script. \<open>loaded\<close> is what \<^verbatim>\<open>joblib.load(model_path)\<close> does at import time:
  it returns the model or raises. \<open>argv\<close> is \<^verbatim>\<open>sys.argv\<close>, the script name first.
\<close>

record run =
  stdout :: "json list"
  exit_code :: int

definition predict_wrapper ::
  "error + (pyfloat, 'z) classifier_scheme \<Rightarrow> string list \<Rightarrow> run" where
  "predict_wrapper loaded argv =
     (case loaded of
        Inl e \<Rightarrow>
          \<lparr>stdout = [JObj [(''error'', JStr (''Failed to load model: '' @ str_error e))]],
           exit_code = 1\<rparr>
      | Inr model \<Rightarrow>
          \<lparr>stdout = predict model (drop 1 argv), exit_code = 0\<rparr>)"

subsection \<open>Sample classifiers and inputs\<close>

text \<open>
  Two classifiers that answer every frame with one fixed row of probabilities, and the
  sample vector of \<^verbatim>\<open>predict.py\<close>. In \<open>four_crops\<close> three classes share a probability.
\<close>

definition four_crops :: "'x classifier" where
  "four_crops =
     \<lparr>classes = [''rice'', ''maize'', ''jute'', ''cotton''],
      predict_proba = (\<lambda>df. Inr [[1 / 5, 2 / 5, 1 / 5, 1 / 5]])\<rparr>"

definition two_crops :: "'x classifier" where
  "two_crops =
     \<lparr>classes = [''rice'', ''maize''],
      predict_proba = (\<lambda>df. Inr [[3 / 10, 7 / 10]])\<rparr>"

definition sample :: "rat list" where
  "sample = [90, 40, 40, 51 / 2, 75, 34 / 5, 180]"


text \<open>
  A classifier that agrees with \<open>four_crops\<close> on the sample vector and raises on every
  other frame.
\<close>

definition picky_crops :: "rat classifier" where
  "picky_crops =
     \<lparr>classes = [''rice'', ''maize'', ''jute'', ''cotton''],
      predict_proba = (\<lambda>df. if frame_rows df = [sample]
                              then Inr [[1 / 5, 2 / 5, 1 / 5, 1 / 5]]
                              else Inl (Exception ''unseen input''))\<rparr>"

text \<open>
  A classifier that tells whether the frame it is given holds a value that is not
  finite.
\<close>

definition non_finite :: "pyfloat \<Rightarrow> bool" where
  "non_finite v = (v = NaN \<or> v = PosInf \<or> v = NegInf)"

definition nan_spy :: "pyfloat classifier" where
  "nan_spy =
     \<lparr>classes = [''all-finite'', ''non-finite''],
      predict_proba = (\<lambda>df. if list_ex (list_ex non_finite) (frame_rows df)
                              then Inr [[0, 1]]
                              else Inr [[1, 0]])\<rparr>"

text \<open>Argument lists of the command line, without the script name.\<close>

definition good_args :: "string list" where
  "good_args = [''90'', ''40'', ''40'', ''25.5'', ''75'', ''6.8'', ''180'']"

definition six_args :: "string list" where
  "six_args = [''90'', ''40'', ''40'', ''25.5'', ''75'', ''6.8'']"

definition abc_args :: "string list" where
  "abc_args = [''90'', ''40'', ''40'', ''25.5'', ''75'', ''6.8'', ''abc'']"

definition nan_args :: "string list" where
  "nan_args = [''nan'', ''inf'', ''40'', ''25.5'', ''75'', ''6.8'', ''180'']"

subsection \<open>Reading the printed documents\<close>

text \<open>The value stored under a key of a JSON object, as a consumer of the output reads it.\<close>

fun json_get :: "string \<Rightarrow> json \<Rightarrow> json option" where
  "json_get k (JObj kvs) = map_of kvs k"
| "json_get k _ = None"

section \<open>Properties of the built-ins\<close>

subsection \<open>The descending stable sort\<close>


lemma set_py_sorted_reverse: "set (py_sorted_reverse key xs) = set xs"
  by (simp add: py_sorted_reverse_def)

lemma length_py_sorted_reverse: "length (py_sorted_reverse key xs) = length xs"
  by (simp add: py_sorted_reverse_def)

lemma mset_py_sorted_reverse: "mset (py_sorted_reverse key xs) = mset xs"
  by (simp add: py_sorted_reverse_def)

lemma sorted_py_sorted_reverse:
  "sorted_wrt (\<lambda>a b. key b \<le> key a) (py_sorted_reverse key xs)"
proof -
  have "sorted (map key (sort_key key (rev xs)))"
    by (rule sorted_sort_key)
  then have "sorted_wrt (\<lambda>a b. key a \<le> key b) (sort_key key (rev xs))"
    by (simp add: sorted_map)
  then show ?thesis
    unfolding py_sorted_reverse_def by (simp add: sorted_wrt_rev)
qed

lemma stable_py_sorted_reverse:
  "filter (\<lambda>x. key x = k) (py_sorted_reverse key xs) = filter (\<lambda>x. key x = k) xs"
proof -
  have "filter (\<lambda>x. key x = k) (sort_key key (rev xs)) = filter (\<lambda>x. key x = k) (rev xs)"
    by (rule sort_key_stable)
  then show ?thesis
    unfolding py_sorted_reverse_def by (simp add: rev_filter [symmetric])
qed

lemma distinct_map_py_sorted_reverse:
  "distinct (map f (py_sorted_reverse key xs)) = distinct (map f xs)"
proof -
  have "mset (map f (py_sorted_reverse key xs)) = mset (map f xs)"
    by (simp add: mset_py_sorted_reverse)
  then show ?thesis
    by (rule mset_eq_imp_distinct_iff)
qed

lemma prefix_filter_take: "prefix (filter P (take n xs)) (filter P xs)"
proof -
  have "filter P xs = filter P (take n xs) @ filter P (drop n xs)"
    by (metis append_take_drop_id filter_append)
  then show ?thesis
    by (simp add: prefix_def)
qed

subsection \<open>Rounding\<close>

lemma round_half_even_upper: "round_half_even x \<le> \<lfloor>x\<rfloor> + 1"
  by (simp add: round_half_even_def Let_def)

lemma round_half_even_lower: "\<lfloor>x\<rfloor> \<le> round_half_even x"
  by (simp add: round_half_even_def Let_def)

lemma round_half_even_mono:
  assumes "x \<le> y"
  shows "round_half_even x \<le> round_half_even y"
proof (cases "\<lfloor>x\<rfloor> = \<lfloor>y\<rfloor>")
  case True
  with assms show ?thesis
    by (auto simp: round_half_even_def Let_def)
next
  case False
  with assms have "\<lfloor>x\<rfloor> < \<lfloor>y\<rfloor>"
    by (simp add: floor_mono order.strict_iff_order)
  then have "\<lfloor>x\<rfloor> + 1 \<le> \<lfloor>y\<rfloor>"
    by simp
  with round_half_even_upper [of x] round_half_even_lower [of y] show ?thesis
    by linarith
qed

lemma round_half_even_of_int: "round_half_even (of_int k) = k"
  by (simp add: round_half_even_def)

lemma py_round_mono: "x \<le> y \<Longrightarrow> py_round x n \<le> py_round y n"
proof -
  assume "x \<le> y"
  then have "x * 10 ^ n \<le> y * 10 ^ n"
    by (simp add: mult_right_mono)
  then have "round_half_even (x * 10 ^ n) \<le> round_half_even (y * 10 ^ n)"
    by (rule round_half_even_mono)
  then show ?thesis
    by (simp add: py_round_def divide_right_mono)
qed

lemma py_round_0: "py_round 0 n = 0"
  using round_half_even_of_int [of 0] by (simp add: py_round_def)

lemma py_round_100: "py_round 100 2 = 100"
  using round_half_even_of_int [of 10000] by (simp add: py_round_def)

lemma py_round_percent_range:
  assumes "0 \<le> p" and "p \<le> 1"
  shows "0 \<le> py_round (p * 100) 2 \<and> py_round (p * 100) 2 \<le> 100"
proof -
  from assms have "0 \<le> p * 100" and "p * 100 \<le> 100"
    by simp_all
  then have "py_round 0 2 \<le> py_round (p * 100) 2" and "py_round (p * 100) 2 \<le> py_round 100 2"
    by (simp_all add: py_round_mono)
  then show ?thesis
    by (simp add: py_round_0 py_round_100)
qed

lemma py_round_two_decimals: "py_round x 2 = of_int (round_half_even (x * 100)) / 100"
  by (simp add: py_round_def)

subsection \<open>The result of \<^verbatim>\<open>predict_top3\<close>\<close>

lemma predict_top3_success:
  assumes "length user_input = 7"
    and "predict_proba model \<lparr>columns = FEATURES, frame_rows = [user_input]\<rparr> = Inr (probs # rest)"
  shows "predict_top3 model user_input =
           Inr (map (\<lambda>(crop, prob). (crop, py_round (prob * 100) 2))
                  (take 3 (py_sorted_reverse snd (zip (classes model) probs))))"
  using assms by (simp add: predict_top3_def DataFrame_def FEATURES_def index0_def)

lemma snd_percent:
  "map snd (map (\<lambda>(crop, prob). (crop, py_round (prob * 100) 2)) xs) =
   map (\<lambda>x. py_round (snd x * 100) 2) xs"
  by (induction xs) auto

lemma fst_percent:
  "map fst (map (\<lambda>(crop, prob). (crop, py_round (prob * 100) 2)) xs) = map fst xs"
  by (induction xs) auto

lemma sorted_percent:
  assumes "sorted_wrt (\<lambda>a b. snd b \<le> snd a) xs"
  shows "sorted_wrt (\<lambda>a b. b \<le> a) (map snd (map (\<lambda>(crop, prob). (crop, py_round (prob * 100) 2)) xs))"
proof -
  have "sorted_wrt (\<lambda>a b. py_round (snd b * 100) 2 \<le> py_round (snd a * 100) 2) xs"
    by (rule sorted_wrt_mono_rel [OF _ assms]) (simp add: py_round_mono)
  then show ?thesis
    by (simp add: sorted_wrt_map case_prod_beta)
qed

lemma sorted_top3:
  "sorted_wrt (\<lambda>a b. snd b \<le> snd a) (take 3 (py_sorted_reverse snd xs))"
  by (rule sorted_wrt_take) (rule sorted_py_sorted_reverse)

section \<open>The recommendation list\<close>

text \<open>
  Claim C1. For a vector of 7 values on which the classifier answers with a row holding
  one probability for each of its classes, \<open>predict_top3\<close> returns a list of at most 3
  pairs whose percentages never increase along the list. The list has \<open>min 3 n\<close> entries
  for \<open>n\<close> classes: with fewer than 3 classes it has exactly one entry for each class
  and nothing is added.
\<close>

theorem predict_top3_length_sorted:
  assumes "length user_input = 7"
    and "predict_proba model \<lparr>columns = FEATURES, frame_rows = [user_input]\<rparr> = Inr (probs # rest)"
    and "length probs = length (classes model)"
  shows "\<exists>res. predict_top3 model user_input = Inr res
           \<and> length res \<le> 3
           \<and> sorted_wrt (\<lambda>a b. b \<le> a) (map snd res)
           \<and> length res = min 3 (length (classes model))
           \<and> (length (classes model) < 3 \<longrightarrow> length res = length (classes model))"
proof -
  let ?top = "take 3 (py_sorted_reverse snd (zip (classes model) probs))"
  let ?res = "map (\<lambda>(crop, prob). (crop, py_round (prob * 100) 2)) ?top"
  have "predict_top3 model user_input = Inr ?res"
    using assms(1,2) by (rule predict_top3_success)
  moreover have "length ?res = min 3 (length (classes model))"
    using assms(3) by (simp add: length_py_sorted_reverse)
  moreover have "sorted_wrt (\<lambda>a b. b \<le> a) (map snd ?res)"
    by (rule sorted_percent) (rule sorted_top3)
  ultimately show ?thesis
    by auto
qed

theorem predict_top3_length_sorted_witness:
  "length sample = 7
   \<and> predict_proba (two_crops :: rat classifier) \<lparr>columns = FEATURES, frame_rows = [sample]\<rparr>
       = Inr ([3 / 10, 7 / 10] # [])
   \<and> length [3 / 10, 7 / 10 :: rat] = length (classes (two_crops :: rat classifier))
   \<and> length (classes (two_crops :: rat classifier)) < 3
   \<and> (\<exists>res. predict_top3 (two_crops :: rat classifier) sample = Inr res
         \<and> length res \<le> 3
         \<and> sorted_wrt (\<lambda>a b. b \<le> a) (map snd res)
         \<and> length res = 2)"
proof -
  have h1: "length sample = 7"
    by (simp add: sample_def)
  have h2: "predict_proba (two_crops :: rat classifier) \<lparr>columns = FEATURES, frame_rows = [sample]\<rparr>
       = Inr ([3 / 10, 7 / 10] # [])"
    by (simp add: two_crops_def)
  have h3: "length [3 / 10, 7 / 10 :: rat] = length (classes (two_crops :: rat classifier))"
    by (simp add: two_crops_def)
  have h4: "length (classes (two_crops :: rat classifier)) < 3"
    by (simp add: two_crops_def)
  from predict_top3_length_sorted [OF h1 h2 h3] h4 h3
  have "\<exists>res. predict_top3 (two_crops :: rat classifier) sample = Inr res
         \<and> length res \<le> 3
         \<and> sorted_wrt (\<lambda>a b. b \<le> a) (map snd res)
         \<and> length res = 2"
    by auto
  with h1 h2 h3 h4 show ?thesis
    by blast
qed

end
